theory Spec2Isabelle
  imports Main "HOL-Library.Sublist"
begin

section \<open>JavaScript values\<close>

text \<open>
  The values that flow through the SDK. Strings are lists of code units below 256
  (the Latin-1 range); numbers are the integers that print in plain decimal (below
  \<open>10^21\<close> in magnitude); a plain object is the list of its own enumerable
  properties in the order \<open>Object.keys\<close> reports them, each key once.
\<close>

datatype jsvalue =
    Undefined
  | Null
  | Bool bool
  | Num int
  | Str string
  | Arr "jsvalue list"
  | Obj "(string \<times> jsvalue) list"

text \<open>
  An argument of a call: \<open>Omitted\<close> is a missing (or \<open>undefined\<close>) argument, which
  is what triggers a default parameter value; \<open>Given\<close> is anything else. A nullable
  field is an \<open>option\<close>, with \<open>None\<close> for \<open>null\<close>.
\<close>

datatype 'a arg = Omitted | Given 'a

definition dflt :: "'a \<Rightarrow> 'a arg \<Rightarrow> 'a" where
  "dflt d a = (case a of Omitted \<Rightarrow> d | Given x \<Rightarrow> x)"

text \<open>\<open>ToBoolean\<close>: what \<open>if (v)\<close> and \<open>v || w\<close> test.\<close>

fun truthy :: "jsvalue \<Rightarrow> bool" where
  "truthy Undefined = False"
| "truthy Null = False"
| "truthy (Bool b) = b"
| "truthy (Num n) = (n \<noteq> 0)"
| "truthy (Str s) = (s \<noteq> [])"
| "truthy (Arr xs) = True"
| "truthy (Obj ps) = True"

definition js_or :: "jsvalue \<Rightarrow> jsvalue \<Rightarrow> jsvalue" where
  "js_or a b = (if truthy a then a else b)"

text \<open>Decimal digits of a natural number, most significant first.\<close>

fun digits :: "nat \<Rightarrow> string" where
  "digits n =
     (if n < 10 then [''0123456789'' ! n]
      else digits (n div 10) @ [''0123456789'' ! (n mod 10)])"

declare digits.simps [simp del]

definition numToString :: "int \<Rightarrow> string" where
  "numToString n = (if n < 0 then CHR ''-'' # digits (nat (- n)) else digits (nat n))"

text \<open>\<open>Array.prototype.join\<close> on strings.\<close>

fun join :: "string \<Rightarrow> string list \<Rightarrow> string" where
  "join sep [] = []"
| "join sep [x] = x"
| "join sep (x # y # ys) = x @ sep @ join sep (y # ys)"

text \<open>
  \<open>ToString\<close>, as a template literal, \<open>String(v)\<close> and the conversion of an argument
  to a string apply it. An array joins its elements with commas, \<open>null\<close> and
  \<open>undefined\<close> elements giving the empty string.
\<close>

fun toString :: "jsvalue \<Rightarrow> string" where
  "toString Undefined = ''undefined''"
| "toString Null = ''null''"
| "toString (Bool b) = (if b then ''true'' else ''false'')"
| "toString (Num n) = numToString n"
| "toString (Str s) = s"
| "toString (Arr xs) =
     join '','' (map (\<lambda>x. if x = Undefined \<or> x = Null then [] else toString x) xs)"
| "toString (Obj ps) = ''[object Object]''"

text \<open>\<open>o[k]\<close> on a plain object with the properties \<open>ps\<close>.\<close>

definition getProp :: "(string \<times> jsvalue) list \<Rightarrow> string \<Rightarrow> jsvalue" where
  "getProp ps k = (case map_of ps k of None \<Rightarrow> Undefined | Some v \<Rightarrow> v)"

text \<open>
  \<open>v?.k\<close> for the property names the client reads (\<open>message\<close>, \<open>error\<close>):
  \<open>undefined\<close> on \<open>null\<close> and \<open>undefined\<close>, the property's value on an object
  that has it, \<open>undefined\<close> on everything else.
\<close>

fun optProp :: "jsvalue \<Rightarrow> string \<Rightarrow> jsvalue" where
  "optProp (Obj ps) k = getProp ps k"
| "optProp v k = Undefined"

section \<open>errors.js\<close>

record http_response =
  status :: int
  statusText :: string
  data :: jsvalue

datatype error_class =
    CarespaceError
  | AuthenticationError
  | AuthorizationError
  | NotFoundError
  | ValidationError
  | RateLimitError
  | ServerError
  | NetworkError
  | TimeoutError

text \<open>The \<open>extends\<close> clauses of the class declarations.\<close>

fun extends :: "error_class \<Rightarrow> error_class option" where
  "extends CarespaceError = None"
| "extends TimeoutError = Some NetworkError"
| "extends c = Some CarespaceError"

text \<open>\<open>e instanceof C\<close> on the class of \<open>e\<close>: the chain has at most three links.\<close>

definition instanceof :: "error_class \<Rightarrow> error_class \<Rightarrow> bool" where
  "instanceof c C =
     (c = C \<or> extends c = Some C \<or>
      (case extends c of None \<Rightarrow> False | Some d \<Rightarrow> extends d = Some C))"

text \<open>
  An error instance. \<open>errors\<close> is \<open>None\<close> where the object has no such property
  (every class but \<open>ValidationError\<close>).
\<close>

record carespace_error =
  cls :: error_class
  name :: string
  message :: string
  statusCode :: "int option"
  response :: "http_response option"
  errors :: "jsvalue list option"

text \<open>\<open>super(message)\<close> into the built-in \<open>Error\<close>: no message gives the empty string.\<close>

definition new_CarespaceError ::
  "string arg \<Rightarrow> int option arg \<Rightarrow> http_response option arg \<Rightarrow> carespace_error" where
  "new_CarespaceError msg sc resp =
     \<lparr>cls = CarespaceError, name = ''CarespaceError'', message = dflt [] msg,
      statusCode = dflt None sc, response = dflt None resp, errors = None\<rparr>"

definition new_AuthenticationError ::
  "string arg \<Rightarrow> int option arg \<Rightarrow> http_response option arg \<Rightarrow> carespace_error" where
  "new_AuthenticationError msg sc resp =
     (new_CarespaceError (Given (dflt ''Authentication failed'' msg))
        (Given (dflt (Some 401) sc)) (Given (dflt None resp)))
      \<lparr>cls := AuthenticationError, name := ''AuthenticationError''\<rparr>"

definition new_AuthorizationError ::
  "string arg \<Rightarrow> int option arg \<Rightarrow> http_response option arg \<Rightarrow> carespace_error" where
  "new_AuthorizationError msg sc resp =
     (new_CarespaceError (Given (dflt ''Access denied'' msg))
        (Given (dflt (Some 403) sc)) (Given (dflt None resp)))
      \<lparr>cls := AuthorizationError, name := ''AuthorizationError''\<rparr>"

definition new_NotFoundError ::
  "string arg \<Rightarrow> int option arg \<Rightarrow> http_response option arg \<Rightarrow> carespace_error" where
  "new_NotFoundError msg sc resp =
     (new_CarespaceError (Given (dflt ''Resource not found'' msg))
        (Given (dflt (Some 404) sc)) (Given (dflt None resp)))
      \<lparr>cls := NotFoundError, name := ''NotFoundError''\<rparr>"

definition new_ValidationError ::
  "string arg \<Rightarrow> int option arg \<Rightarrow> http_response option arg \<Rightarrow> jsvalue list arg
     \<Rightarrow> carespace_error" where
  "new_ValidationError msg sc resp errs =
     (new_CarespaceError (Given (dflt ''Validation failed'' msg))
        (Given (dflt (Some 400) sc)) (Given (dflt None resp)))
      \<lparr>cls := ValidationError, name := ''ValidationError'', errors := Some (dflt [] errs)\<rparr>"

definition new_RateLimitError ::
  "string arg \<Rightarrow> int option arg \<Rightarrow> http_response option arg \<Rightarrow> carespace_error" where
  "new_RateLimitError msg sc resp =
     (new_CarespaceError (Given (dflt ''Rate limit exceeded'' msg))
        (Given (dflt (Some 429) sc)) (Given (dflt None resp)))
      \<lparr>cls := RateLimitError, name := ''RateLimitError''\<rparr>"

definition new_ServerError ::
  "string arg \<Rightarrow> int option arg \<Rightarrow> http_response option arg \<Rightarrow> carespace_error" where
  "new_ServerError msg sc resp =
     (new_CarespaceError (Given (dflt ''Internal server error'' msg))
        (Given (dflt (Some 500) sc)) (Given (dflt None resp)))
      \<lparr>cls := ServerError, name := ''ServerError''\<rparr>"

definition new_NetworkError ::
  "string arg \<Rightarrow> http_response option arg \<Rightarrow> carespace_error" where
  "new_NetworkError msg resp =
     (new_CarespaceError (Given (dflt ''Network error'' msg))
        (Given None) (Given (dflt None resp)))
      \<lparr>cls := NetworkError, name := ''NetworkError''\<rparr>"

definition new_TimeoutError ::
  "string arg \<Rightarrow> http_response option arg \<Rightarrow> carespace_error" where
  "new_TimeoutError msg resp =
     (new_NetworkError (Given (dflt ''Request timeout'' msg)) (Given (dflt None resp)))
      \<lparr>cls := TimeoutError, name := ''TimeoutError''\<rparr>"

text \<open>
  \<open>createError(status, message, response = null)\<close>: the \<open>switch\<close> compares the
  status with \<open>===\<close>, case by case in the order written.
\<close>

definition createError ::
  "int \<Rightarrow> string arg \<Rightarrow> http_response option arg \<Rightarrow> carespace_error" where
  "createError st msg resp =
     (let r = Given (dflt None resp); s = Given (Some st) in
      if st = 401 then new_AuthenticationError msg s r
      else if st = 403 then new_AuthorizationError msg s r
      else if st = 404 then new_NotFoundError msg s r
      else if st = 400 \<or> st = 422 then new_ValidationError msg s r Omitted
      else if st = 429 then new_RateLimitError msg s r
      else if st = 500 \<or> st = 502 \<or> st = 503 \<or> st = 504 then new_ServerError msg s r
      else new_CarespaceError msg s r)"

lemmas new_error_defs =
  new_CarespaceError_def new_AuthenticationError_def new_AuthorizationError_def
  new_NotFoundError_def new_ValidationError_def new_RateLimitError_def
  new_ServerError_def new_NetworkError_def new_TimeoutError_def dflt_def

section \<open>client.js\<close>

text \<open>
  The configuration object of the constructor; \<open>None\<close> is a property that is not
  there, and a missing \<open>headers\<close> is the empty map (spreading \<open>undefined\<close> adds
  nothing).
\<close>

record config =
  config_baseURL :: "string option"
  config_apiKey :: jsvalue
  config_timeout :: "int option"
  config_headers :: "string \<rightharpoonup> string"

text \<open>
  The client: its own fields and the default headers its axios instance was created with.
\<close>

record client =
  baseURL :: string
  apiKey :: jsvalue
  timeout :: int
  defaults_headers :: "string \<rightharpoonup> string"

definition new_CarespaceClient :: "config \<Rightarrow> client" where
  "new_CarespaceClient c =
     \<lparr>baseURL = (case config_baseURL c of
                   None \<Rightarrow> ''https://api-dev.carespace.ai''
                 | Some u \<Rightarrow> if u \<noteq> [] then u else ''https://api-dev.carespace.ai''),
      apiKey = config_apiKey c,
      timeout = (case config_timeout c of
                   None \<Rightarrow> 30000
                 | Some t \<Rightarrow> if t \<noteq> 0 then t else 30000),
      defaults_headers = [''Content-Type'' \<mapsto> ''application/json''] ++ config_headers c\<rparr>"

definition setApiKey :: "client \<Rightarrow> jsvalue \<Rightarrow> client" where
  "setApiKey this k = this\<lparr>apiKey := k\<rparr>"

text \<open>
  The request configuration as axios hands it to the request interceptor: the url and
  the \<open>headers\<close> object with its properties. What axios puts there (its own
  defaults, those of the instance, those of the call's options) is not modelled: the
  configuration is an input.
\<close>

record request_config =
  url :: string
  headers :: "string \<rightharpoonup> string"

text \<open>The request interceptor reads \<open>this.apiKey\<close> when it runs.\<close>

definition requestInterceptor :: "client \<Rightarrow> request_config \<Rightarrow> request_config" where
  "requestInterceptor this cfg =
     (if truthy (apiKey this)
      then cfg\<lparr>headers := (headers cfg)(''Authorization'' \<mapsto> ''Bearer '' @ toString (apiKey this))\<rparr>
      else cfg)"

text \<open>
  What axios rejects with: \<open>response\<close> when the server answered, \<open>request\<close> when the
  request was sent, the failure's \<open>code\<close> and \<open>message\<close>.
\<close>

record axios_error =
  ax_response :: "http_response option"
  ax_request :: bool
  ax_code :: "string option"
  ax_message :: string

text \<open>The message of a failed response: \<open>data?.message || data?.error || `HTTP ...`\<close>.\<close>

definition errorMessage :: "http_response \<Rightarrow> jsvalue" where
  "errorMessage r =
     js_or (optProp (data r) ''message'')
       (js_or (optProp (data r) ''error'')
          (Str (''HTTP '' @ numToString (status r) @ '': '' @ statusText r)))"

text \<open>A value as the message argument of an error constructor.\<close>

definition msgArg :: "jsvalue \<Rightarrow> string arg" where
  "msgArg v = (if v = Undefined then Omitted else Given (toString v))"

text \<open>The rejection handler of the response interceptor: the error it throws.\<close>

definition responseRejected :: "axios_error \<Rightarrow> carespace_error" where
  "responseRejected err =
     (case ax_response err of
        Some r \<Rightarrow> createError (status r) (msgArg (errorMessage r)) (Given (Some r))
      | None \<Rightarrow>
          if ax_request err then
            (if ax_code err = Some ''ECONNABORTED''
             then new_TimeoutError (Given ''Request timeout'') Omitted
             else new_NetworkError (Given ''Network error - no response received'') Omitted)
          else new_NetworkError (Given (''Request setup error: '' @ ax_message err)) Omitted)"

text \<open>
  How the transport ends. The client leaves axios's \<open>validateStatus\<close> at its default,
  so a response settles the request as fulfilled exactly when its status is 2xx, and as
  a rejection carrying the response otherwise.
\<close>

datatype transport_result =
    Responded http_response
  | NoResponse "string option" string
  | SetupFailed string

definition validateStatus :: "int \<Rightarrow> bool" where
  "validateStatus st = (200 \<le> st \<and> st < 300)"

definition settle :: "transport_result \<Rightarrow> axios_error + http_response" where
  "settle t =
     (case t of
        Responded r \<Rightarrow>
          if validateStatus (status r) then Inr r
          else Inl \<lparr>ax_response = Some r, ax_request = True,
                    ax_code = (if 400 \<le> status r \<and> status r < 500 then Some ''ERR_BAD_REQUEST''
                               else if 500 \<le> status r \<and> status r < 600 then Some ''ERR_BAD_RESPONSE''
                               else None),
                    ax_message = ''Request failed with status code '' @ numToString (status r)\<rparr>
      | NoResponse c m \<Rightarrow>
          Inl \<lparr>ax_response = None, ax_request = True, ax_code = c, ax_message = m\<rparr>
      | SetupFailed m \<Rightarrow>
          Inl \<lparr>ax_response = None, ax_request = False, ax_code = None, ax_message = m\<rparr>)"

text \<open>
  \<open>get(url, options)\<close> over a transport. \<open>cfg\<close> is the request configuration axios
  has assembled for the call when the interceptors start: the request interceptor runs on
  it, the result goes to the wire, the response interceptor passes a fulfilled response
  on and turns a rejection into the thrown error, and \<open>get\<close> returns
  \<open>response.data\<close>.
\<close>

definition get ::
  "(request_config \<Rightarrow> transport_result) \<Rightarrow> client \<Rightarrow> request_config
     \<Rightarrow> carespace_error + jsvalue" where
  "get wire this cfg =
     (case settle (wire (requestInterceptor this cfg)) of
        Inl err \<Rightarrow> Inl (responseRejected err)
      | Inr r \<Rightarrow> Inr (data r))"

text \<open>A client with default settings and a request for it, for the concrete runs below.\<close>

definition sampleClient :: client where
  "sampleClient =
     new_CarespaceClient
       \<lparr>config_baseURL = None, config_apiKey = Str ''abc'', config_timeout = None,
          config_headers = Map.empty\<rparr>"

definition sampleRequest :: "string \<Rightarrow> request_config" where
  "sampleRequest u =
     \<lparr>url = u,
      headers = [''Accept'' \<mapsto> ''application/json, text/plain, */*'',
                 ''Content-Type'' \<mapsto> ''application/json'']\<rparr>"

section \<open>Built-ins used by api/base.js\<close>

text \<open>
  The UTF-8 bytes of a code unit below 256: one byte below 128, two from there on.
\<close>

definition utf8 :: "char \<Rightarrow> nat list" where
  "utf8 c = (let n = of_char c in if n < 128 then [n] else [192 + n div 64, 128 + n mod 64])"

text \<open>A byte as \<open>%XX\<close>, in upper-case hexadecimal.\<close>

definition pct :: "nat \<Rightarrow> string" where
  "pct b = [CHR ''%'', ''0123456789ABCDEF'' ! (b div 16), ''0123456789ABCDEF'' ! (b mod 16)]"

text \<open>
  \<open>encodeURIComponent\<close> keeps the letters, the digits and \<open>- _ . ! ~ * ' ( )\<close> and
  escapes the UTF-8 bytes of everything else.
\<close>

definition uriUnreserved :: "char \<Rightarrow> bool" where
  "uriUnreserved c =
     (c \<in> set ''ABCDEFGHIJKLMNOPQRSTUVWXYZabcdefghijklmnopqrstuvwxyz0123456789-_.!~*()''
      \<or> c = CHR 0x27)"

definition encodeURIComponent :: "string \<Rightarrow> string" where
  "encodeURIComponent s =
     concat (map (\<lambda>c. if uriUnreserved c then [c] else concat (map pct (utf8 c))) s)"

text \<open>
  The serializer of \<open>URLSearchParams\<close> (application/x-www-form-urlencoded): a space
  becomes \<open>+\<close>, the letters, the digits and \<open>* - . _\<close> stay, the UTF-8 bytes of
  everything else are escaped.
\<close>

definition formSafe :: "char \<Rightarrow> bool" where
  "formSafe c =
     (c \<in> set ''ABCDEFGHIJKLMNOPQRSTUVWXYZabcdefghijklmnopqrstuvwxyz0123456789*-._'')"

definition formEncode :: "string \<Rightarrow> string" where
  "formEncode s =
     concat (map (\<lambda>c. if c = CHR '' '' then ''+''
                       else if formSafe c then [c]
                       else concat (map pct (utf8 c))) s)"

text \<open>
  A \<open>URLSearchParams\<close> object is its list of name-value pairs; \<open>append\<close> converts the
  value to a string and adds the pair at the end, \<open>toString\<close> serializes the list.
\<close>

type_synonym searchParams = "(string \<times> string) list"

definition searchParams_append :: "searchParams \<Rightarrow> string \<Rightarrow> jsvalue \<Rightarrow> searchParams" where
  "searchParams_append sp k v = sp @ [(k, toString v)]"

definition searchParams_toString :: "searchParams \<Rightarrow> string" where
  "searchParams_toString sp = join ''&'' (map (\<lambda>(k, v). formEncode k @ ''='' @ formEncode v) sp)"

text \<open>\<open>s.indexOf(pat)\<close>: the first position where \<open>pat\<close> starts, if any.\<close>

fun indexOf :: "string \<Rightarrow> string \<Rightarrow> nat option" where
  "indexOf [] pat = (if pat = [] then Some 0 else None)"
| "indexOf (c # cs) pat =
     (if prefix pat (c # cs) then Some 0 else map_option Suc (indexOf cs pat))"

text \<open>
  The replacement text of \<open>String.prototype.replace\<close> with a string pattern:
  \<open>$$\<close> is a dollar sign, \<open>$&\<close> the match, \<open>$`\<close> the text before it, \<open>$'\<close> the
  text after it; there are no capture groups, so any other \<open>$\<close> stands for itself.
\<close>

fun getSubstitution :: "string \<Rightarrow> string \<Rightarrow> nat \<Rightarrow> string \<Rightarrow> string" where
  "getSubstitution matched str position (c # d # rest) =
     (if c = CHR ''$'' then
        (if d = CHR ''$'' then CHR ''$'' # getSubstitution matched str position rest
         else if d = CHR ''&'' then matched @ getSubstitution matched str position rest
         else if d = CHR 0x60 then take position str @ getSubstitution matched str position rest
         else if d = CHR 0x27
           then drop (position + length matched) str @ getSubstitution matched str position rest
         else c # getSubstitution matched str position (d # rest))
      else c # getSubstitution matched str position (d # rest))"
| "getSubstitution matched str position rest = rest"

text \<open>\<open>s.replace(pat, rep)\<close> with a string pattern: the first occurrence only.\<close>

definition replace :: "string \<Rightarrow> string \<Rightarrow> string \<Rightarrow> string" where
  "replace s pat rep =
     (case indexOf s pat of
        None \<Rightarrow> s
      | Some pos \<Rightarrow> take pos s @ getSubstitution pat s pos rep @ drop (pos + length pat) s)"

section \<open>api/base.js\<close>

text \<open>
  A \<open>BaseAPI\<close> instance holds the client. A parameter object is the list of its
  properties in the order of \<open>Object.keys\<close>.
\<close>

record baseAPI =
  api_client :: client

definition buildUrl :: "baseAPI \<Rightarrow> string \<Rightarrow> (string \<times> jsvalue) list arg \<Rightarrow> string" where
  "buildUrl this path params =
     (let ps = dflt [] params in
      foldl (\<lambda>url key. replace url (''{'' @ key @ ''}'')
                          (encodeURIComponent (toString (getProp ps key))))
        path (map fst ps))"

text \<open>The body of the \<open>forEach\<close> callback of \<open>buildQueryParams\<close>, for one key.\<close>

definition queryStep :: "(string \<times> jsvalue) list \<Rightarrow> searchParams \<Rightarrow> string \<Rightarrow> searchParams" where
  "queryStep ps sp key =
     (let v = getProp ps key in
      if v \<noteq> Undefined \<and> v \<noteq> Null \<and> v \<noteq> Str [] then
        (case v of
           Arr items \<Rightarrow> foldl (\<lambda>sp item. searchParams_append sp key item) sp items
         | _ \<Rightarrow> searchParams_append sp key v)
      else sp)"

definition buildQueryParams :: "baseAPI \<Rightarrow> (string \<times> jsvalue) list arg \<Rightarrow> string" where
  "buildQueryParams this params =
     (let ps = dflt [] params;
          searchParams = foldl (queryStep ps) [] (map fst ps);
          queryString = searchParams_toString searchParams
      in if queryString \<noteq> [] then ''?'' @ queryString else [])"

text \<open>An instance on the sample client.\<close>

definition sampleAPI :: baseAPI where
  "sampleAPI = \<lparr>api_client = sampleClient\<rparr>"

section \<open>The builders as the specification words them\<close>

text \<open>
  The pairs a parameter mapping contributes, entry by entry: nothing for \<open>undefined\<close>,
  \<open>null\<close> and the empty string, one pair per element for a sequence, one pair for a
  scalar.
\<close>

definition entryPairs :: "string \<times> jsvalue \<Rightarrow> string list" where
  "entryPairs e =
     (case e of (k, v) \<Rightarrow>
        if v = Undefined \<or> v = Null \<or> v = Str [] then []
        else (case v of
                Arr items \<Rightarrow> map (\<lambda>item. formEncode k @ ''='' @ formEncode (toString item)) items
              | _ \<Rightarrow> [formEncode k @ ''='' @ formEncode (toString v)]))"

text \<open>The same pairs before they are encoded, as \<open>URLSearchParams\<close> holds them.\<close>

definition entryRaw :: "string \<times> jsvalue \<Rightarrow> searchParams" where
  "entryRaw e =
     (case e of (k, v) \<Rightarrow>
        if v = Undefined \<or> v = Null \<or> v = Str [] then []
        else (case v of
                Arr items \<Rightarrow> map (\<lambda>item. (k, toString item)) items
              | _ \<Rightarrow> [(k, toString v)]))"

definition buildQuery_spec :: "(string \<times> jsvalue) list \<Rightarrow> string" where
  "buildQuery_spec ps =
     (let pairs = concat (map entryPairs ps)
      in if pairs = [] then [] else ''?'' @ join ''&'' pairs)"

text \<open>Replacing the first occurrence of \<open>pat\<close> by \<open>rep\<close>, scanning from the left.\<close>

fun replaceFirst :: "string \<Rightarrow> string \<Rightarrow> string \<Rightarrow> string" where
  "replaceFirst pat rep [] = (if pat = [] then rep else [])"
| "replaceFirst pat rep (c # cs) =
     (if prefix pat (c # cs) then rep @ drop (length pat) (c # cs)
      else c # replaceFirst pat rep cs)"

fun buildPath_spec :: "string \<Rightarrow> (string \<times> jsvalue) list \<Rightarrow> string" where
  "buildPath_spec template [] = template"
| "buildPath_spec template ((k, v) # ps) =
     buildPath_spec
       (replaceFirst (''{'' @ k @ ''}'') (encodeURIComponent (toString v)) template) ps"

text \<open>A name without braces.\<close>

definition braceFree :: "string \<Rightarrow> bool" where
  "braceFree k = (CHR ''{'' \<notin> set k \<and> CHR ''}'' \<notin> set k)"

section \<open>Facts about the error constructors\<close>

lemma message_createError: "message (createError st (Given m) resp) = m"
  by (simp add: createError_def new_error_defs Let_def)

lemma statusCode_createError: "statusCode (createError st msg resp) = Some st"
  by (simp add: createError_def new_error_defs Let_def)

lemma response_createError: "response (createError st msg resp) = dflt None resp"
  by (simp add: createError_def new_error_defs Let_def)

lemma truthy_errorMessage: "truthy (errorMessage r)"
  by (simp add: errorMessage_def js_or_def)

lemma errorMessage_defined: "errorMessage r \<noteq> Undefined"
  using truthy_errorMessage [of r] by auto

lemma message_responseRejected:
  "ax_response e = Some r \<Longrightarrow> message (responseRejected e) = toString (errorMessage r)"
  by (simp add: responseRejected_def msgArg_def errorMessage_defined message_createError)

section \<open>The status table\<close>

text \<open>
  C1. For every status code, \<open>createError\<close> returns an instance of the class the
  mapping table gives: 401 Authentication, 403 Authorization, 404 NotFound, 400 and 422
  Validation, 429 RateLimit, 500, 502, 503 and 504 Server, and the base class
  (the Generic kind) for every status that is not in the table.
\<close>

theorem createError_kind:
  "cls (createError 401 msg resp) = AuthenticationError
   \<and> cls (createError 403 msg resp) = AuthorizationError
   \<and> cls (createError 404 msg resp) = NotFoundError
   \<and> cls (createError 400 msg resp) = ValidationError
   \<and> cls (createError 422 msg resp) = ValidationError
   \<and> cls (createError 429 msg resp) = RateLimitError
   \<and> cls (createError 500 msg resp) = ServerError
   \<and> cls (createError 502 msg resp) = ServerError
   \<and> cls (createError 503 msg resp) = ServerError
   \<and> cls (createError 504 msg resp) = ServerError
   \<and> (st \<notin> {400, 401, 403, 404, 422, 429, 500, 502, 503, 504}
        \<longrightarrow> cls (createError st msg resp) = CarespaceError)"
  by (simp add: createError_def new_error_defs)

theorem createError_kind_witness:
  "(501::int) \<notin> {400, 401, 403, 404, 422, 429, 500, 502, 503, 504}
   \<and> cls (createError 501 (Given ''Not Implemented'') Omitted) = CarespaceError
   \<and> cls (createError 404 (Given ''Not Implemented'') Omitted) = NotFoundError"
  using createError_kind [of "Given ''Not Implemented''" Omitted 501] by simp

section \<open>Validation details\<close>

text \<open>
  C2. A failed response with a Validation status whose body lists field-level errors
  should surface as a Validation error whose \<open>errors\<close> field carries that list. The
  code does not do so: \<open>createError\<close> calls the \<open>ValidationError\<close> constructor without
  its fourth argument, so \<open>errors\<close> is always the empty list. Here is the run at status
  422 with body \<open>{errors: ["email invalid"]}\<close>: the list stays inside the raw response.
\<close>

theorem validation_details_dropped:
  "get (\<lambda>req. Responded \<lparr>status = 422, statusText = ''Unprocessable Entity'',
                            data = Obj [(''errors'', Arr [Str ''email invalid''])]\<rparr>)
       sampleClient (sampleRequest ''/users'')
   = Inl \<lparr>cls = ValidationError, name = ''ValidationError'',
          message = ''HTTP 422: Unprocessable Entity'', statusCode = Some 422,
          response = Some \<lparr>status = 422, statusText = ''Unprocessable Entity'',
                            data = Obj [(''errors'', Arr [Str ''email invalid''])]\<rparr>,
          errors = Some []\<rparr>"
  by (simp add: get_def settle_def validateStatus_def responseRejected_def errorMessage_def
      js_or_def msgArg_def createError_def new_error_defs numToString_def digits.simps
      getProp_def)

section \<open>The Authorization header\<close>

text \<open>
  C5, as stated, fails: with no key set, a request that already carries an Authorization
  header when it reaches the interceptor is sent with it, since the interceptor only ever
  adds. So it is with a client built without \<open>apiKey\<close> and a request to which the
  caller's \<open>headers\<close> gave \<open>Authorization: Basic dXNlcjpwYXNz\<close>.
\<close>

theorem auth_header_counterexample:
  "\<not> truthy (apiKey (new_CarespaceClient
        \<lparr>config_baseURL = None, config_apiKey = Undefined, config_timeout = None,
           config_headers = [''Authorization'' \<mapsto> ''Basic dXNlcjpwYXNz'']\<rparr>))
   \<and> headers (requestInterceptor
        (new_CarespaceClient
          \<lparr>config_baseURL = None, config_apiKey = Undefined, config_timeout = None,
             config_headers = [''Authorization'' \<mapsto> ''Basic dXNlcjpwYXNz'']\<rparr>)
        \<lparr>url = ''/users'',
           headers = [''Content-Type'' \<mapsto> ''application/json'',
                      ''Authorization'' \<mapsto> ''Basic dXNlcjpwYXNz'']\<rparr>) ''Authorization''
     = Some ''Basic dXNlcjpwYXNz''"
  by (simp add: requestInterceptor_def new_CarespaceClient_def)

text \<open>
  C5, amended. If the client's key is set (non-empty) when the request interceptor runs,
  the interceptor sets the header \<open>Authorization: Bearer <key>\<close> with the current key:
  after \<open>setApiKey\<close> that is the new key, whatever the constructor was given. If no
  key is set at that moment the interceptor adds no Authorization header: it returns the
  request as it received it, so an Authorization header is sent only if the request
  already carried one.
\<close>

theorem request_auth_header:
  "(truthy (apiKey c) \<longrightarrow>
      headers (requestInterceptor c cfg) ''Authorization''
        = Some (''Bearer '' @ toString (apiKey c)))
   \<and> (truthy k \<longrightarrow>
      headers (requestInterceptor (setApiKey (new_CarespaceClient conf) k) cfg) ''Authorization''
        = Some (''Bearer '' @ toString k))
   \<and> (\<not> truthy (apiKey c) \<longrightarrow> requestInterceptor c cfg = cfg)"
  by (simp add: requestInterceptor_def setApiKey_def)

theorem request_auth_header_witness:
  "headers (requestInterceptor (setApiKey (new_CarespaceClient
       \<lparr>config_baseURL = None, config_apiKey = Str ''old'', config_timeout = None,
          config_headers = Map.empty\<rparr>) (Str ''abc'')) (sampleRequest ''/users''))
     ''Authorization'' = Some ''Bearer abc''
   \<and> requestInterceptor (new_CarespaceClient
       \<lparr>config_baseURL = None, config_apiKey = Undefined, config_timeout = None,
          config_headers = Map.empty\<rparr>) (sampleRequest ''/users'') = sampleRequest ''/users''"
  using request_auth_header [of
      "setApiKey (new_CarespaceClient
         \<lparr>config_baseURL = None, config_apiKey = Str ''old'', config_timeout = None,
            config_headers = Map.empty\<rparr>) (Str ''abc'')"
      "sampleRequest ''/users''" "Str ''abc''"
      "\<lparr>config_baseURL = None, config_apiKey = Str ''old'', config_timeout = None,
            config_headers = Map.empty\<rparr>"]
    request_auth_header [of
      "new_CarespaceClient
         \<lparr>config_baseURL = None, config_apiKey = Undefined, config_timeout = None,
            config_headers = Map.empty\<rparr>"
      "sampleRequest ''/users''" "Str ''abc''"
      "\<lparr>config_baseURL = None, config_apiKey = Str ''old'', config_timeout = None,
            config_headers = Map.empty\<rparr>"]
  by (simp add: new_CarespaceClient_def setApiKey_def)

text \<open>
  C9, as stated, fails for the same reason: after \<open>setApiKey('')\<close> a request to which
  the call's options gave \<open>Authorization: Bearer per-call\<close> is sent with that header.
\<close>

theorem empty_key_counterexample:
  "headers (requestInterceptor (setApiKey sampleClient (Str []))
      \<lparr>url = ''/users'',
         headers = [''Content-Type'' \<mapsto> ''application/json'',
                    ''Authorization'' \<mapsto> ''Bearer per-call'']\<rparr>) ''Authorization''
     = Some ''Bearer per-call''"
  by (simp add: requestInterceptor_def setApiKey_def)

text \<open>
  C9, amended. \<open>setApiKey('')\<close> clears the key: for every request dispatched afterwards
  the interceptor adds no Authorization header and returns the request as it received
  it, exactly as with an unset key and whatever the previous key was (the empty key is
  not a no-op that keeps the previous key), so an Authorization header is sent only if
  the request already carried one.
\<close>

theorem empty_key_clears:
  "apiKey (setApiKey c (Str [])) = Str []
   \<and> requestInterceptor (setApiKey c (Str [])) cfg = cfg
   \<and> requestInterceptor (setApiKey c (Str [])) cfg = requestInterceptor (setApiKey c Undefined) cfg"
  by (simp add: requestInterceptor_def setApiKey_def)

section \<open>Failures without a response\<close>

text \<open>
  C6. When no response was received, a failure with the transport code
  \<open>ECONNABORTED\<close> (a timeout) surfaces as a Timeout error and not as a plain Network
  error, any other one as a Network error; a failure while setting the request up
  surfaces as a Network error whose message wraps the failure's message.
\<close>

theorem no_response_classification:
  "(ax_response e = None \<and> ax_request e \<and> ax_code e = Some ''ECONNABORTED''
      \<longrightarrow> cls (responseRejected e) = TimeoutError
          \<and> cls (responseRejected e) \<noteq> NetworkError
          \<and> message (responseRejected e) = ''Request timeout'')
   \<and> (ax_response e = None \<and> ax_request e \<and> ax_code e \<noteq> Some ''ECONNABORTED''
      \<longrightarrow> cls (responseRejected e) = NetworkError
          \<and> message (responseRejected e) = ''Network error - no response received'')
   \<and> (ax_response e = None \<and> \<not> ax_request e
      \<longrightarrow> cls (responseRejected e) = NetworkError
          \<and> message (responseRejected e) = ''Request setup error: '' @ ax_message e)
   \<and> (wire (requestInterceptor c cfg) = NoResponse code m
      \<longrightarrow> (\<exists>err. get wire c cfg = Inl err
            \<and> cls err = (if code = Some ''ECONNABORTED'' then TimeoutError else NetworkError)))
   \<and> (wire (requestInterceptor c cfg) = SetupFailed m
      \<longrightarrow> (\<exists>err. get wire c cfg = Inl err \<and> cls err = NetworkError
            \<and> message err = ''Request setup error: '' @ m))"
  by (simp add: responseRejected_def get_def settle_def new_error_defs)

theorem no_response_classification_witness:
  "cls (responseRejected \<lparr>ax_response = None, ax_request = True,
          ax_code = Some ''ECONNABORTED'', ax_message = ''timeout of 30000ms exceeded''\<rparr>)
     = TimeoutError
   \<and> cls (responseRejected \<lparr>ax_response = None, ax_request = True,
          ax_code = Some ''ERR_NETWORK'', ax_message = ''Network Error''\<rparr>) = NetworkError
   \<and> message (responseRejected \<lparr>ax_response = None, ax_request = False,
          ax_code = None, ax_message = ''Invalid URL''\<rparr>) = ''Request setup error: Invalid URL''
   \<and> (\<exists>err. get (\<lambda>req. NoResponse (Some ''ECONNABORTED'') ''timeout of 30000ms exceeded'')
          (new_CarespaceClient \<lparr>config_baseURL = None, config_apiKey = Undefined,
             config_timeout = None, config_headers = Map.empty\<rparr>) (sampleRequest ''/users'') = Inl err
        \<and> cls err = TimeoutError)
   \<and> (\<exists>err. get (\<lambda>req. SetupFailed ''Invalid URL'')
          (new_CarespaceClient \<lparr>config_baseURL = None, config_apiKey = Undefined,
             config_timeout = None, config_headers = Map.empty\<rparr>) (sampleRequest ''/users'') = Inl err
        \<and> message err = ''Request setup error: Invalid URL'')"
  using
    no_response_classification [of
      "\<lparr>ax_response = None, ax_request = True, ax_code = Some ''ECONNABORTED'',
         ax_message = ''timeout of 30000ms exceeded''\<rparr>"
      "\<lambda>req. NoResponse (Some ''ECONNABORTED'') ''timeout of 30000ms exceeded''"
      "new_CarespaceClient \<lparr>config_baseURL = None, config_apiKey = Undefined,
         config_timeout = None, config_headers = Map.empty\<rparr>" "sampleRequest ''/users''"
      "Some ''ECONNABORTED''" "''timeout of 30000ms exceeded''"]
    no_response_classification [of
      "\<lparr>ax_response = None, ax_request = True, ax_code = Some ''ERR_NETWORK'',
         ax_message = ''Network Error''\<rparr>"
      "\<lambda>req. SetupFailed ''Invalid URL''"
      "new_CarespaceClient \<lparr>config_baseURL = None, config_apiKey = Undefined,
         config_timeout = None, config_headers = Map.empty\<rparr>" "sampleRequest ''/users''"
      None "''Invalid URL''"]
    no_response_classification [of
      "\<lparr>ax_response = None, ax_request = False, ax_code = None,
         ax_message = ''Invalid URL''\<rparr>"
      "\<lambda>req. SetupFailed ''Invalid URL''"
      "new_CarespaceClient \<lparr>config_baseURL = None, config_apiKey = Undefined,
         config_timeout = None, config_headers = Map.empty\<rparr>" "sampleRequest ''/users''"
      None "''Invalid URL''"]
  by auto

section \<open>The message of a failed response, the body of a successful one\<close>

text \<open>
  C7, as stated, fails: a \<open>message\<close> field that is present but falsy is passed over.
  A 400 response with body \<open>{message: "", error: "bad input"}\<close> surfaces with the
  message \<open>bad input\<close>, not with the body's (empty) \<open>message\<close>.
\<close>

theorem message_counterexample:
  "optProp (Obj [(''message'', Str []), (''error'', Str ''bad input'')]) ''message'' = Str []
   \<and> message (responseRejected
        \<lparr>ax_response = Some \<lparr>status = 400, statusText = ''Bad Request'',
            data = Obj [(''message'', Str []), (''error'', Str ''bad input'')]\<rparr>,
          ax_request = True, ax_code = Some ''ERR_BAD_REQUEST'',
          ax_message = ''Request failed with status code 400''\<rparr>) = ''bad input''"
  by (simp add: message_responseRejected errorMessage_def js_or_def getProp_def)

text \<open>
  C7, amended. For a failed response with a non-2xx status, the message of the surfaced
  error is the string form of the body's \<open>message\<close> field when that is present and
  truthy (for a string: non-empty), otherwise of the body's \<open>error\<close> field when that
  is present and truthy, otherwise \<open>HTTP <status>: <status text>\<close>; for a 2xx response
  the caller gets the response body unchanged.
\<close>

theorem response_message_and_body:
  "(wire (requestInterceptor c cfg) = Responded r \<and> \<not> validateStatus (status r) \<longrightarrow>
      (\<exists>err. get wire c cfg = Inl err \<and>
         message err =
           (if truthy (optProp (data r) ''message'') then toString (optProp (data r) ''message'')
            else if truthy (optProp (data r) ''error'') then toString (optProp (data r) ''error'')
            else ''HTTP '' @ numToString (status r) @ '': '' @ statusText r)))
   \<and> (wire (requestInterceptor c cfg) = Responded r \<and> validateStatus (status r) \<longrightarrow>
        get wire c cfg = Inr (data r))"
  by (simp add: get_def settle_def message_responseRejected errorMessage_def js_or_def)

theorem response_message_and_body_witness:
  "(\<exists>err. get (\<lambda>req. Responded \<lparr>status = 404, statusText = ''Not Found'',
                   data = Obj [(''message'', Str ''not found'')]\<rparr>)
          (new_CarespaceClient \<lparr>config_baseURL = None, config_apiKey = Undefined,
             config_timeout = None, config_headers = Map.empty\<rparr>) (sampleRequest ''/users/7'') = Inl err
        \<and> message err = ''not found'')
   \<and> get (\<lambda>req. Responded \<lparr>status = 200, statusText = ''OK'',
                   data = Obj [(''id'', Num 7)]\<rparr>)
          (new_CarespaceClient \<lparr>config_baseURL = None, config_apiKey = Undefined,
             config_timeout = None, config_headers = Map.empty\<rparr>) (sampleRequest ''/users/7'')
      = Inr (Obj [(''id'', Num 7)])"
  using
    response_message_and_body [of
      "\<lambda>req. Responded \<lparr>status = 404, statusText = ''Not Found'',
                   data = Obj [(''message'', Str ''not found'')]\<rparr>"
      "new_CarespaceClient \<lparr>config_baseURL = None, config_apiKey = Undefined,
             config_timeout = None, config_headers = Map.empty\<rparr>" "sampleRequest ''/users/7''"
      "\<lparr>status = 404, statusText = ''Not Found'', data = Obj [(''message'', Str ''not found'')]\<rparr>"]
    response_message_and_body [of
      "\<lambda>req. Responded \<lparr>status = 200, statusText = ''OK'', data = Obj [(''id'', Num 7)]\<rparr>"
      "new_CarespaceClient \<lparr>config_baseURL = None, config_apiKey = Undefined,
             config_timeout = None, config_headers = Map.empty\<rparr>" "sampleRequest ''/users/7''"
      "\<lparr>status = 200, statusText = ''OK'', data = Obj [(''id'', Num 7)]\<rparr>"]
  by (simp add: validateStatus_def getProp_def)

section \<open>Status code and raw response of an error\<close>

text \<open>
  C8. Every error \<open>createError\<close> produces, the base-class default included, carries the
  given status as \<open>statusCode\<close> and the given response as \<open>response\<close>; every
  \<open>NetworkError\<close>, and every \<open>TimeoutError\<close>, which extends it, carries the
  \<open>statusCode\<close> \<open>null\<close>. So an error thrown by the client has a status code exactly
  when it comes from an HTTP response, and then it is that response's status.
\<close>

theorem error_status_and_response:
  "statusCode (createError st msg resp) = Some st
   \<and> response (createError st msg (Given r)) = r
   \<and> statusCode (new_NetworkError m0 r0) = None
   \<and> statusCode (new_TimeoutError m0 r0) = None
   \<and> instanceof TimeoutError NetworkError
   \<and> (statusCode (responseRejected e) \<noteq> None) = (ax_response e \<noteq> None)
   \<and> statusCode (responseRejected e) = map_option status (ax_response e)"
  by (simp add: statusCode_createError response_createError responseRejected_def
      new_error_defs instanceof_def split: option.splits)

section \<open>The query string\<close>

lemma getProp_entry: "distinct (map fst ps) \<Longrightarrow> (k, v) \<in> set ps \<Longrightarrow> getProp ps k = v"
  by (simp add: getProp_def)

lemma append_items:
  "foldl (\<lambda>sp item. searchParams_append sp key item) sp items
     = sp @ map (\<lambda>item. (key, toString item)) items"
  by (induction items arbitrary: sp) (simp_all add: searchParams_append_def)

lemma queryStep_entry: "getProp ps k = v \<Longrightarrow> queryStep ps sp k = sp @ entryRaw (k, v)"
  by (cases v) (simp_all add: queryStep_def entryRaw_def append_items searchParams_append_def)

lemma queryStep_fold:
  "(\<And>k v. (k, v) \<in> set qs \<Longrightarrow> getProp ps k = v) \<Longrightarrow>
     foldl (queryStep ps) sp (map fst qs) = sp @ concat (map entryRaw qs)"
proof (induction qs arbitrary: sp)
  case Nil
  then show ?case by simp
next
  case (Cons q qs)
  obtain k v where q: "q = (k, v)" by (cases q)
  have "getProp ps k = v" using Cons.prems [of k v] q by simp
  then have step: "queryStep ps sp k = sp @ entryRaw (k, v)" by (rule queryStep_entry)
  have "foldl (queryStep ps) (sp @ entryRaw (k, v)) (map fst qs)
          = (sp @ entryRaw (k, v)) @ concat (map entryRaw qs)"
    using Cons.prems by (intro Cons.IH) simp
  then show ?case using step q by simp
qed

lemma entryPairs_raw:
  "entryPairs e = map (\<lambda>(k, v). formEncode k @ ''='' @ formEncode v) (entryRaw e)"
  by (cases e; cases "snd e") (simp_all add: entryPairs_def entryRaw_def)

lemma join_nonempty:
  assumes "xs \<noteq> []" and "hd xs \<noteq> []"
  shows "join sep xs \<noteq> []"
proof (cases xs)
  case Nil
  then show ?thesis using assms by simp
next
  case (Cons x ys)
  then show ?thesis using assms by (cases ys) simp_all
qed

lemma buildQueryParams_spec:
  assumes "distinct (map fst ps)"
  shows "buildQueryParams this (Given ps) = buildQuery_spec ps"
proof -
  let ?enc = "\<lambda>(k, v). formEncode k @ ''='' @ formEncode v"
  define raw where "raw = concat (map entryRaw ps)"
  have sp: "foldl (queryStep ps) [] (map fst ps) = raw"
    using queryStep_fold [of ps ps "[]"] getProp_entry [OF assms] by (simp add: raw_def)
  have pairs: "concat (map entryPairs ps) = map ?enc raw"
    by (simp add: raw_def map_concat entryPairs_raw cong: map_cong)
  have unfold: "buildQueryParams this (Given ps)
      = (if join ''&'' (map ?enc raw) \<noteq> [] then ''?'' @ join ''&'' (map ?enc raw) else [])"
    unfolding buildQueryParams_def searchParams_toString_def Let_def dflt_def
    by (simp only: sp arg.case)
  have spec: "buildQuery_spec ps
      = (if map ?enc raw = [] then [] else ''?'' @ join ''&'' (map ?enc raw))"
    unfolding buildQuery_spec_def Let_def by (simp only: pairs)
  show ?thesis
  proof (cases raw)
    case Nil
    then show ?thesis unfolding unfold spec by simp
  next
    case (Cons kv rest)
    have "join ''&'' (map ?enc raw) \<noteq> []"
      by (rule join_nonempty) (simp_all add: Cons split: prod.splits)
    moreover have "map ?enc raw \<noteq> []" by (simp add: Cons)
    ultimately show ?thesis unfolding unfold spec by simp
  qed
qed

text \<open>
  C3. \<open>buildQueryParams\<close> goes through the keys in the order of the mapping, skips
  every entry whose value is \<open>undefined\<close>, \<open>null\<close> or the empty string, adds one
  encoded \<open>key=value\<close> pair per element, in order, for a sequence and one pair for a
  scalar, and returns the empty string when no pair was added, otherwise \<open>?\<close> and the
  pairs joined with \<open>&\<close>: it computes \<open>buildQuery_spec\<close>, which is worded so. In
  particular \<open>{}\<close> gives the empty string and \<open>{page: 1, limit: 10}\<close> gives
  \<open>?page=1&limit=10\<close>.
\<close>

theorem buildQueryParams_pairs:
  "(distinct (map fst ps) \<longrightarrow> buildQueryParams this (Given ps) = buildQuery_spec ps)
   \<and> buildQueryParams this Omitted = []
   \<and> buildQueryParams this (Given []) = []
   \<and> buildQueryParams this (Given [(''page'', Num 1), (''limit'', Num 10)]) = ''?page=1&limit=10''"
proof -
  have "buildQueryParams this (Given [(''page'', Num 1), (''limit'', Num 10)])
      = buildQuery_spec [(''page'', Num 1), (''limit'', Num 10)]"
    by (rule buildQueryParams_spec) simp
  also have "\<dots> = ''?page=1&limit=10''"
    by (simp add: buildQuery_spec_def entryPairs_def formEncode_def formSafe_def
        numToString_def digits.simps)
  finally have ex: "buildQueryParams this (Given [(''page'', Num 1), (''limit'', Num 10)])
      = ''?page=1&limit=10''" .
  have e1: "buildQueryParams this Omitted = []"
    by (simp add: buildQueryParams_def dflt_def searchParams_toString_def)
  have e2: "buildQueryParams this (Given []) = []"
    by (simp add: buildQueryParams_def dflt_def searchParams_toString_def)
  show ?thesis using buildQueryParams_spec ex e1 e2 by blast
qed

theorem buildQueryParams_pairs_witness:
  "distinct (map fst [(''page'', Num 2), (''q'', Str []), (''tags'', Arr [Str ''a b'', Str ''c''])])
   \<and> buildQueryParams sampleAPI
        (Given [(''page'', Num 2), (''q'', Str []), (''tags'', Arr [Str ''a b'', Str ''c''])])
      = ''?page=2&tags=a+b&tags=c''"
  using buildQueryParams_pairs
    [of "[(''page'', Num 2), (''q'', Str []), (''tags'', Arr [Str ''a b'', Str ''c''])]"
        "sampleAPI"]
  by (simp add: buildQuery_spec_def entryPairs_def formEncode_def formSafe_def
        numToString_def digits.simps)

text \<open>
  C10. The query string depends on the parameter mapping only: the method reads nothing
  of the object it is called on, so any two calls with the same mapping, on whatever
  instances and in whatever state their clients are, return the same string.
\<close>

theorem buildQueryParams_stable:
  "buildQueryParams this params = buildQueryParams this' params"
  by (simp add: buildQueryParams_def)

section \<open>The path\<close>

lemma getSubstitution_plain:
  "CHR ''$'' \<notin> set rep \<Longrightarrow> getSubstitution matched str position rep = rep"
  by (induction matched str position rep rule: getSubstitution.induct) auto

lemma replace_plain:
  assumes "CHR ''$'' \<notin> set rep"
  shows "replace s pat rep = replaceFirst pat rep s"
proof -
  have "(case indexOf s pat of None \<Rightarrow> s
         | Some pos \<Rightarrow> take pos s @ rep @ drop (pos + length pat) s) = replaceFirst pat rep s"
    by (induction s) (auto split: option.splits)
  then show ?thesis
    by (simp add: replace_def getSubstitution_plain [OF assms] split: option.splits)
qed

lemma hex_digit: "i < 16 \<Longrightarrow> ''0123456789ABCDEF'' ! i \<in> set ''0123456789ABCDEF''"
  by (rule nth_mem) simp

lemma pct_no_dollar: "b < 256 \<Longrightarrow> CHR ''$'' \<notin> set (pct b)"
proof -
  assume "b < 256"
  then have "b div 16 < 16" by simp
  from hex_digit [OF this] have 1: "''0123456789ABCDEF'' ! (b div 16) \<noteq> CHR ''$''" by auto
  have "b mod 16 < 16" by simp
  from hex_digit [OF this] have 2: "''0123456789ABCDEF'' ! (b mod 16) \<noteq> CHR ''$''" by auto
  show ?thesis using 1 2 by (simp add: pct_def)
qed

lemma utf8_bytes:
  assumes "b \<in> set (utf8 c)"
  shows "b < 256"
proof -
  define n :: nat where "n = of_char c"
  have "n < 256" by (simp add: n_def)
  moreover have "b \<in> set (if n < 128 then [n] else [192 + n div 64, 128 + n mod 64])"
    using assms unfolding utf8_def Let_def n_def [symmetric] .
  ultimately show ?thesis by (auto split: if_splits)
qed

lemma encodeURIComponent_no_dollar: "CHR ''$'' \<notin> set (encodeURIComponent s)"
  by (auto simp: encodeURIComponent_def uriUnreserved_def dest: utf8_bytes pct_no_dollar)



lemma replaceFirst_absent:
  "pat \<noteq> [] \<Longrightarrow> \<not> sublist pat s \<Longrightarrow> replaceFirst pat rep s = s"
  by (induction s) (auto simp: sublist_Cons_right)

lemma replaceFirst_prefix: "pat \<noteq> [] \<Longrightarrow> replaceFirst pat rep (pat @ b) = rep @ b"
  by (cases pat) simp_all

lemma prefix_shorter:
  "prefix xs (ys @ zs) \<Longrightarrow> length xs \<le> length ys \<Longrightarrow> prefix xs ys"
  by (auto simp: prefix_append)

lemma replaceFirst_first:
  assumes "pat \<noteq> []"
  shows "\<not> sublist pat (a @ butlast pat) \<Longrightarrow> replaceFirst pat rep (a @ pat @ b) = a @ rep @ b"
proof (induction a)
  case Nil
  then show ?case using assms by (simp add: replaceFirst_prefix)
next
  case (Cons x a)
  have split: "x # a @ pat @ b = (x # a @ butlast pat) @ last pat # b"
    using assms by simp
  have "\<not> prefix pat (x # a @ pat @ b)"
  proof
    assume "prefix pat (x # a @ pat @ b)"
    then have "prefix pat ((x # a @ butlast pat) @ last pat # b)" by (simp only: split)
    moreover have "length pat \<le> length (x # a @ butlast pat)" by simp
    ultimately have "prefix pat (x # a @ butlast pat)" by (rule prefix_shorter)
    then have "sublist pat ((x # a) @ butlast pat)" by (simp add: prefix_imp_sublist)
    with Cons.prems show False by simp
  qed
  moreover have "\<not> sublist pat (a @ butlast pat)"
    using Cons.prems by (simp add: sublist_Cons_right)
  ultimately show ?case using Cons.IH by simp
qed

lemma replaceFirst_skip:
  "CHR ''{'' \<notin> set x \<Longrightarrow>
     replaceFirst (CHR ''{'' # p) rep (x @ y) = x @ replaceFirst (CHR ''{'' # p) rep y"
  by (induction x) auto

lemma sublist_skip:
  "CHR ''{'' \<notin> set x \<Longrightarrow> sublist (CHR ''{'' # q) (x @ y) \<Longrightarrow> sublist (CHR ''{'' # q) y"
  by (induction x) (auto simp: sublist_Cons_right)

lemma name_unique:
  assumes "CHR ''}'' \<notin> set n" and "CHR ''}'' \<notin> set k"
    and "n @ CHR ''}'' # r1 = k @ CHR ''}'' # r2"
  shows "n = k"
proof -
  have "takeWhile (\<lambda>c. c \<noteq> CHR ''}'') (n @ CHR ''}'' # r1) = n"
    using assms(1) by (auto simp: takeWhile_tail)
  moreover have "takeWhile (\<lambda>c. c \<noteq> CHR ''}'') (k @ CHR ''}'' # r2) = k"
    using assms(2) by (auto simp: takeWhile_tail)
  ultimately show ?thesis using assms(3) by simp
qed

lemma sublist_later: "sublist xs ys \<Longrightarrow> sublist xs (zs @ ys)"
  by (metis append.assoc sublist_def)

lemma placeholder_persists:
  assumes k: "braceFree k" and n: "braceFree n" and nk: "n \<noteq> k"
  shows "sublist (''{'' @ n @ ''}'') s \<Longrightarrow>
           sublist (''{'' @ n @ ''}'') (replaceFirst (''{'' @ k @ ''}'') rep s)"
proof (induction s)
  case Nil
  then show ?case by simp
next
  case (Cons c cs)
  let ?pn = "''{'' @ n @ ''}''" and ?pk = "''{'' @ k @ ''}''"
  show ?case
  proof (cases "prefix ?pk (c # cs)")
    case True
    then obtain rest where rest: "c # cs = ?pk @ rest" by (auto simp: prefix_def)
    then have c: "c = CHR ''{''" and cs: "cs = (k @ ''}'') @ rest" by simp_all
    have res: "replaceFirst ?pk rep (c # cs) = rep @ rest"
      by (simp only: rest) (rule replaceFirst_prefix, simp)
    have "\<not> prefix ?pn (c # cs)"
    proof
      assume "prefix ?pn (c # cs)"
      then obtain r2 where "c # cs = ?pn @ r2" by (auto simp: prefix_def)
      with rest have "n @ CHR ''}'' # r2 = k @ CHR ''}'' # rest" by simp
      moreover have "CHR ''}'' \<notin> set n" and "CHR ''}'' \<notin> set k"
        using n k by (simp_all add: braceFree_def)
      ultimately have "n = k" by (rule name_unique [rotated 2])
      with nk show False by simp
    qed
    moreover from Cons.prems have "prefix ?pn (c # cs) \<or> sublist ?pn cs"
      by (simp only: sublist_Cons_right)
    ultimately have "sublist ?pn cs" by blast
    then have "sublist (CHR ''{'' # n @ ''}'') ((k @ ''}'') @ rest)" by (simp add: cs)
    moreover have "CHR ''{'' \<notin> set (k @ ''}'')" using k by (simp add: braceFree_def)
    ultimately have "sublist (CHR ''{'' # n @ ''}'') rest" by (rule sublist_skip [rotated])
    then show ?thesis by (simp only: res) (simp add: sublist_later)
  next
    case False
    then have res: "replaceFirst ?pk rep (c # cs) = c # replaceFirst ?pk rep cs"
      by (simp only: replaceFirst.simps if_False)
    show ?thesis
    proof (cases "prefix ?pn (c # cs)")
      case True
      then obtain r2 where r2: "c # cs = ?pn @ r2" by (auto simp: prefix_def)
      then have c: "c = CHR ''{''" and cs: "cs = (n @ ''}'') @ r2" by simp_all
      have "CHR ''{'' \<notin> set (n @ ''}'')" using n by (simp add: braceFree_def)
      then have "replaceFirst (CHR ''{'' # k @ ''}'') rep ((n @ ''}'') @ r2)
              = (n @ ''}'') @ replaceFirst (CHR ''{'' # k @ ''}'') rep r2"
        by (rule replaceFirst_skip)
      then have "replaceFirst ?pk rep (c # cs) = ?pn @ replaceFirst ?pk rep r2"
        using res c cs by simp
      then show ?thesis by (metis sublist_append_rightI)
    next
      case False
      moreover from Cons.prems have "prefix ?pn (c # cs) \<or> sublist ?pn cs"
      by (simp only: sublist_Cons_right)
    ultimately have "sublist ?pn cs" by blast
      then have "sublist ?pn (replaceFirst ?pk rep cs)" by (rule Cons.IH)
      then show ?thesis by (simp only: res) (simp add: sublist_Cons_right)
    qed
  qed
qed



lemma buildUrl_replaceFirst:
  "buildUrl this path (Given ps)
     = foldl (\<lambda>url key. replaceFirst (''{'' @ key @ ''}'')
                           (encodeURIComponent (toString (getProp ps key))) url)
         path (map fst ps)"
  by (simp add: buildUrl_def dflt_def replace_plain encodeURIComponent_no_dollar)

lemma buildPath_fold:
  "(\<And>k v. (k, v) \<in> set qs \<Longrightarrow> getProp ps k = v) \<Longrightarrow>
     foldl (\<lambda>url key. replaceFirst (''{'' @ key @ ''}'')
                          (encodeURIComponent (toString (getProp ps key))) url)
       path (map fst qs) = buildPath_spec path qs"
proof (induction qs arbitrary: path)
  case Nil
  then show ?case by simp
next
  case (Cons q qs)
  obtain k v where q: "q = (k, v)" by (cases q)
  have v: "getProp ps k = v" using Cons.prems [of k v] q by simp
  have "foldl (\<lambda>url key. replaceFirst (''{'' @ key @ ''}'')
                          (encodeURIComponent (toString (getProp ps key))) url)
          (replaceFirst (''{'' @ k @ ''}'') (encodeURIComponent (toString v)) path) (map fst qs)
        = buildPath_spec
            (replaceFirst (''{'' @ k @ ''}'') (encodeURIComponent (toString v)) path) qs"
    using Cons.prems by (intro Cons.IH) simp
  then show ?case using q v by simp
qed

lemma persists_fold:
  assumes n: "braceFree n"
  shows "(\<And>k. k \<in> set ks \<Longrightarrow> braceFree k \<and> k \<noteq> n) \<Longrightarrow>
     sublist (''{'' @ n @ ''}'') path \<Longrightarrow>
     sublist (''{'' @ n @ ''}'')
       (foldl (\<lambda>url key. replaceFirst (''{'' @ key @ ''}'') (r key) url) path ks)"
proof (induction ks arbitrary: path)
  case Nil
  then show ?case by simp
next
  case (Cons k ks)
  have "braceFree k" and "n \<noteq> k" using Cons.prems(1) [of k] by auto
  then have "sublist (''{'' @ n @ ''}'') (replaceFirst (''{'' @ k @ ''}'') (r k) path)"
    using n Cons.prems(2) by (intro placeholder_persists)
  then have "sublist (''{'' @ n @ ''}'')
       (foldl (\<lambda>url key. replaceFirst (''{'' @ key @ ''}'') (r key) url)
          (replaceFirst (''{'' @ k @ ''}'') (r k) path) ks)"
    using Cons.prems(1) by (intro Cons.IH) simp_all
  then show ?case by simp
qed

lemma absent_fold:
  "(\<And>k. k \<in> set ks \<Longrightarrow> \<not> sublist (''{'' @ k @ ''}'') path) \<Longrightarrow>
     foldl (\<lambda>url key. replaceFirst (''{'' @ key @ ''}'') (r key) url) path ks = path"
  by (induction ks) (simp_all add: replaceFirst_absent)

text \<open>
  C4. \<open>buildUrl\<close> replaces, key by key in the order of the mapping, the first
  occurrence of \<open>{key}\<close> by the percent-encoded string form of the key's value (it
  computes \<open>buildPath_spec\<close>, and for one key the text before and after the first
  occurrence stays as it is), and it leaves the placeholders no key matches in place:
  when no key's placeholder occurs the path comes back unchanged, and a placeholder
  \<open>{n}\<close> whose name is not among the keys is still there in the result (names and
  keys being free of braces). In particular \<open>/users/{id}/settings\<close> with
  \<open>{id: '123'}\<close> gives \<open>/users/123/settings\<close>.
\<close>

theorem buildUrl_placeholders:
  "(distinct (map fst ps) \<longrightarrow> buildUrl this path (Given ps) = buildPath_spec path ps)
   \<and> buildUrl this path (Given []) = path
   \<and> buildUrl this path Omitted = path
   \<and> (\<not> sublist (''{'' @ k @ ''}'') path \<longrightarrow> buildUrl this path (Given [(k, v)]) = path)
   \<and> (path = a @ ''{'' @ k @ ''}'' @ b \<and> \<not> sublist (''{'' @ k @ ''}'') (a @ ''{'' @ k) \<longrightarrow>
        buildUrl this path (Given [(k, v)]) = a @ encodeURIComponent (toString v) @ b)
   \<and> ((\<forall>key \<in> set (map fst ps). braceFree key) \<and> braceFree n \<and> n \<notin> set (map fst ps)
        \<and> sublist (''{'' @ n @ ''}'') path \<longrightarrow>
        sublist (''{'' @ n @ ''}'') (buildUrl this path (Given ps)))
   \<and> ((\<forall>key \<in> set (map fst ps). \<not> sublist (''{'' @ key @ ''}'') path) \<longrightarrow>
        buildUrl this path (Given ps) = path)
   \<and> buildUrl this ''/users/{id}/settings'' (Given [(''id'', Str ''123'')])
        = ''/users/123/settings''"
proof -
  have spec: "buildUrl this path (Given ps) = buildPath_spec path ps"
    if "distinct (map fst ps)" for ps path
    unfolding buildUrl_replaceFirst
    using getProp_entry [OF that] by (intro buildPath_fold)
  have one: "buildUrl this path (Given [(k, v)])
      = replaceFirst (''{'' @ k @ ''}'') (encodeURIComponent (toString v)) path" for path
    using spec [of "[(k, v)]" path] by simp
  have c1: "buildUrl this path (Given []) = path" by (simp add: buildUrl_def dflt_def)
  have c2: "buildUrl this path Omitted = path" by (simp add: buildUrl_def dflt_def)
  have c3: "buildUrl this path (Given [(k, v)]) = path" if "\<not> sublist (''{'' @ k @ ''}'') path"
    unfolding one using that by (intro replaceFirst_absent) simp_all
  have c4: "buildUrl this path (Given [(k, v)]) = a @ encodeURIComponent (toString v) @ b"
    if "path = a @ ''{'' @ k @ ''}'' @ b" and "\<not> sublist (''{'' @ k @ ''}'') (a @ ''{'' @ k)"
  proof -
    have "\<not> sublist (''{'' @ k @ ''}'') (a @ butlast (''{'' @ k @ ''}''))"
      using that(2) by (simp add: butlast_append)
    then have "replaceFirst (''{'' @ k @ ''}'') (encodeURIComponent (toString v))
        (a @ (''{'' @ k @ ''}'') @ b) = a @ encodeURIComponent (toString v) @ b"
      by (intro replaceFirst_first) simp_all
    then show ?thesis unfolding one that(1) by simp
  qed
  have c5: "sublist (''{'' @ n @ ''}'') (buildUrl this path (Given ps))"
    if "\<forall>key \<in> set (map fst ps). braceFree key" and "braceFree n" and "n \<notin> set (map fst ps)"
      and "sublist (''{'' @ n @ ''}'') path"
    unfolding buildUrl_replaceFirst
    using that by (intro persists_fold) auto
  have c6: "buildUrl this ''/users/{id}/settings'' (Given [(''id'', Str ''123'')])
        = ''/users/123/settings''"
    using spec [of "[(''id'', Str ''123'')]" "''/users/{id}/settings''"]
    by (simp add: encodeURIComponent_def uriUnreserved_def)
  have c7: "buildUrl this path (Given ps) = path"
    if "\<forall>key \<in> set (map fst ps). \<not> sublist (''{'' @ key @ ''}'') path"
    unfolding buildUrl_replaceFirst
    using that by (intro absent_fold) auto
  show ?thesis using spec c1 c2 c3 c4 c5 c6 c7 by blast
qed

theorem buildUrl_placeholders_witness:
  "buildUrl sampleAPI ''/clients/{id}/programs/{programId}'' (Given [(''id'', Str ''a b'')])
     = ''/clients/a%20b/programs/{programId}''
   \<and> sublist ''{programId}''
        (buildUrl sampleAPI ''/clients/{id}/programs/{programId}'' (Given [(''id'', Str ''a b'')]))
   \<and> buildUrl sampleAPI ''/users'' (Given [(''id'', Str ''a b'')]) = ''/users''"
  using
    buildUrl_placeholders [where ps = "[(''id'', Str ''a b'')]" and this = sampleAPI
      and path = "''/clients/{id}/programs/{programId}''" and k = "''id''" and v = "Str ''a b''"
      and a = "''/clients/''" and b = "''/programs/{programId}''" and n = "''programId''"]
    buildUrl_placeholders [where ps = "[(''id'', Str ''a b'')]" and this = sampleAPI
      and path = "''/users''" and k = "''id''" and v = "Str ''a b''"
      and a = "''/clients/''" and b = "''/programs/{programId}''" and n = "''programId''"]
  by (simp add: sublist_code braceFree_def encodeURIComponent_def uriUnreserved_def utf8_def
      pct_def)

end
